theory Spec2Isabelle
  imports Complex_Main
begin

section \<open>JavaScript values\<close>

text \<open>
  The client in \<^verbatim>\<open>frontend/js/app.js\<close> works on payloads parsed from JSON. Scalars are
  kept as JavaScript scalars, because the code tests them for truthiness; a property that
  is missing from an object reads as \<open>JUndefined\<close>. Numbers are the finite numbers JSON
  can carry, taken at their exact value (JSON has no NaN). Containers (tables, rows,
  lists) are typed further down, following the shapes of the server contract.
  \<open>JBuiltin n\<close> is the member \<open>n\<close> of \<^verbatim>\<open>Object.prototype\<close>, which every parsed object
  inherits: a function (for \<^verbatim>\<open>__proto__\<close> the prototype object itself).
\<close>

datatype jsval = JUndefined | JNull | JBool bool | JNum real | JStr string | JBuiltin string

text \<open>
  ToBoolean: \<open>undefined\<close>, \<open>null\<close>, \<open>false\<close>, \<open>0\<close> and \<open>''\<close> are falsy; functions and
  objects are truthy.
\<close>

fun truthy :: "jsval \<Rightarrow> bool" where
  "truthy JUndefined = False"
| "truthy JNull = False"
| "truthy (JBool b) = b"
| "truthy (JNum r) = (r \<noteq> 0)"
| "truthy (JStr s) = (s \<noteq> [])"
| "truthy (JBuiltin n) = True"

text \<open>The operator \<^verbatim>\<open>a || b\<close>: the left operand when it is truthy, else the right one.\<close>

definition js_or :: "jsval \<Rightarrow> jsval \<Rightarrow> jsval" where
  "js_or a b = (if truthy a then a else b)"

section \<open>Quality colour\<close>

text \<open>
  \<^verbatim>\<open>
  getQualityColor(score) {
      if (!score) return '#666';
      if (score >= 0.8) return '#28a745';
      if (score >= 0.6) return '#ffc107';
      return '#dc3545';
  }
  \<close>
  The score is a number or absent (\<open>None\<close> stands for \<open>undefined\<close> and for \<open>null\<close>,
  which \<^verbatim>\<open>!score\<close> treats alike). The four colours are the tiers of the
  specification: \<open>#28a745\<close> high, \<open>#ffc107\<close> medium, \<open>#dc3545\<close> low, \<open>#666\<close> unknown.
\<close>

definition getQualityColor :: "real option \<Rightarrow> string" where
  "getQualityColor score =
     (case score of
        None \<Rightarrow> ''#666''
      | Some s \<Rightarrow>
          if \<not> truthy (JNum s) then ''#666''
          else if s \<ge> 0.8 then ''#28a745''
          else if s \<ge> 0.6 then ''#ffc107''
          else ''#dc3545'')"

section \<open>Tables\<close>

text \<open>
  A data row is a JSON object: its own properties in iteration order. \<^verbatim>\<open>row[header]\<close>
  reads an own property of that name if the row has one; otherwise the lookup goes on to
  the row's prototype, \<^verbatim>\<open>Object.prototype\<close>, and yields the member of that name if there
  is one, and \<open>undefined\<close> if not.
\<close>

type_synonym row = "(string \<times> jsval) list"

definition Object_prototype :: "string list" where
  "Object_prototype =
     [''constructor'', ''hasOwnProperty'', ''isPrototypeOf'', ''propertyIsEnumerable'',
      ''toLocaleString'', ''toString'', ''valueOf'', ''__proto__'',
      ''__defineGetter__'', ''__defineSetter__'', ''__lookupGetter__'', ''__lookupSetter__'']"

definition get_prop :: "row \<Rightarrow> string \<Rightarrow> jsval" where
  "get_prop r k =
     (case map_of r k of
        Some v \<Rightarrow> v
      | None \<Rightarrow> if k \<in> set Object_prototype then JBuiltin k else JUndefined)"

definition Object_keys :: "row \<Rightarrow> string list" where
  "Object_keys r = map fst r"

definition of_num :: "real option \<Rightarrow> jsval" where
  "of_num x = (case x of None \<Rightarrow> JUndefined | Some r \<Rightarrow> JNum r)"

text \<open>
  A table entry of a result payload:
  \<^verbatim>\<open>{name?, row_count, col_count, category?, quality_score?, columns?, data, preview_only?}\<close>.
  For \<open>columns\<close> and \<open>data\<close>, \<open>None\<close> is an absent (or \<open>null\<close>) property and \<open>Some []\<close>
  an empty array, which is truthy.
\<close>

record table =
  name :: jsval
  row_count :: jsval
  col_count :: jsval
  category :: jsval
  quality_score :: "real option"
  columns :: "string list option"
  data :: "row list option"
  preview_only :: jsval

text \<open>
  The markup that \<^verbatim>\<open>createTableHTML\<close> returns, by its structure: either the paragraph
  \<^verbatim>\<open><p>No data available for this table.</p>\<close>, or a \<^verbatim>\<open><table class="data-table">\<close> with
  one \<^verbatim>\<open><th>\<close> per header and, per row, one \<^verbatim>\<open><td>\<close> per header. A cell is kept as the
  value that the template literal substitutes, \<^verbatim>\<open>row[header] || ''\<close>; a string there is
  inserted as it stands.
  \<^verbatim>\<open>
  createTableHTML(table) {
      if (!table.data || !table.data.length) {
          return '<p>No data available for this table.</p>';
      }
      const headers = table.columns || Object.keys(table.data[0]);
      const rows = table.data.slice(0, 50); // Show max 50 rows in preview
      return `<table class="data-table"> <thead><tr>
                  ${headers.map(header => `<th>${header}</th>`).join('')} </tr></thead>
              <tbody> ${rows.map(row => `<tr>
                  ${headers.map(header => `<td>${row[header] || ''}</td>`).join('')}
                  </tr>`).join('')} </tbody></table>`;
  }
  \<close>
\<close>

datatype html = NoData | DataTable "string list" "jsval list list"

definition cell :: "row \<Rightarrow> string \<Rightarrow> jsval" where
  "cell r header = js_or (get_prop r header) (JStr '''')"

definition createTableHTML :: "table \<Rightarrow> html" where
  "createTableHTML t =
     (case data t of
        None \<Rightarrow> NoData
      | Some [] \<Rightarrow> NoData
      | Some (r0 # rs) \<Rightarrow>
          (let headers = (case columns t of Some cs \<Rightarrow> cs | None \<Rightarrow> Object_keys r0);
               rows = take 50 (r0 # rs)
           in DataTable headers
                (map (\<lambda>r. map (\<lambda>header. cell r header) headers) rows)))"

fun headerRow :: "html \<Rightarrow> string list" where
  "headerRow NoData = []"
| "headerRow (DataTable hs b) = hs"

fun bodyRows :: "html \<Rightarrow> jsval list list" where
  "bodyRows NoData = []"
| "bodyRows (DataTable hs b) = b"

text \<open>
  \<^verbatim>\<open>createTableCard(table, index)\<close> builds the card of one table: the heading
  \<^verbatim>\<open>Table ${index + 1}: ${table.name || 'Untitled'}\<close>, the three meta spans
  (\<^verbatim>\<open>${table.row_count} rows x ${table.col_count} columns\<close>,
  \<^verbatim>\<open>${table.category || 'General Data'}\<close>, and
  \<^verbatim>\<open>Quality: ${table.quality_score || 'N/A'}\<close> in the colour of \<^verbatim>\<open>getQualityColor\<close>), the
  table markup, and the note
  \<^verbatim>\<open>${table.preview_only ? '<p><em>Showing first 100 rows only</em></p>' : ''}\<close>.
\<close>

record card =
  card_number :: nat
  card_name :: jsval
  card_rows :: jsval
  card_cols :: jsval
  card_category :: jsval
  card_colour :: string
  card_quality :: jsval
  card_content :: html
  card_note :: string

definition createTableCard :: "table \<Rightarrow> nat \<Rightarrow> card" where
  "createTableCard t index =
     (let qualityColor = getQualityColor (quality_score t)
      in \<lparr> card_number = index + 1,
           card_name = js_or (name t) (JStr ''Untitled''),
           card_rows = row_count t,
           card_cols = col_count t,
           card_category = js_or (category t) (JStr ''General Data''),
           card_colour = qualityColor,
           card_quality = js_or (of_num (quality_score t)) (JStr ''N/A''),
           card_content = createTableHTML t,
           card_note = (if truthy (preview_only t)
                        then ''<p><em>Showing first 100 rows only</em></p>'' else '''') \<rparr>)"

section \<open>The application state\<close>

text \<open>
  What a \<^verbatim>\<open>catch (error)\<close> block of the client can receive: the two errors the submission
  paths throw on \<^verbatim>\<open>!response.ok\<close>, a rejected \<^verbatim>\<open>fetch\<close>, a rejected
  \<^verbatim>\<open>response.json()\<close> (both with the browser's message), and the TypeError of a
  property read on \<open>undefined\<close>.
\<close>

datatype error =
    HttpError nat
  | UploadFailed nat
  | FetchRejected string
  | JsonRejected string
  | TypeError

text \<open>
  A text built by a template literal is the list of its pieces, a substitution
  \<^verbatim>\<open>${v}\<close> being kept as the value \<open>v\<close>; a value used directly is a single
  substitution. \<open>Fixed2 t\<close> is \<^verbatim>\<open>t.toFixed(2)\<close> and \<open>ErrMsg e\<close> is \<^verbatim>\<open>error.message\<close>.
\<close>

datatype piece = Lit string | Sub jsval | Fixed2 real | ErrMsg error

type_synonym text_js = "piece list"

datatype container = InitialMarkup | NoTablesCard | Cards "card list"

text \<open>The callbacks the client passes to \<^verbatim>\<open>setTimeout\<close>, and the requests it sends.\<close>

datatype callback = CbTrackResearch | CbTrackPdf | CbHideProgress

datatype request =
    ResearchStart string jsval
  | ResearchStatus jsval
  | PdfUpload string
  | PdfStatus jsval

text \<open>
  The state is the field \<^verbatim>\<open>currentJobId\<close> of \<^verbatim>\<open>ResearchApp\<close>, the values the client
  assigns to properties of the page (what the browser makes of an assigned string, such
  as a width, is not part of the model), and the two queues of the runtime the client
  feeds: the timers set and not yet fired (callback and delay in ms), and the requests
  sent and not yet answered.
\<close>

record state =
  currentJobId :: jsval
  progressSection_display :: string
  form_disabled :: bool
  progressFill_width :: text_js
  progressText :: text_js
  foundPdfs :: "jsval list"
  welcomeFeatures_display :: string
  resultsSection_display :: string
  resultsStats :: text_js
  researchSummary :: text_js
  tablesContainer :: container
  alerts :: "string list"
  timers :: "(callback \<times> nat) list"
  inflight :: "request list"

text \<open>The page of \<^verbatim>\<open>index.html\<close> after \<^verbatim>\<open>new ResearchApp()\<close>.\<close>

definition init :: state where
  "init = \<lparr> currentJobId = JNull,
            progressSection_display = ''none'',
            form_disabled = False,
            progressFill_width = [],
            progressText = [Lit ''Initializing...''],
            foundPdfs = [],
            welcomeFeatures_display = '''',
            resultsSection_display = ''none'',
            resultsStats = [],
            researchSummary = [],
            tablesContainer = InitialMarkup,
            alerts = [],
            timers = [],
            inflight = [] \<rparr>"

definition setTimeout :: "callback \<Rightarrow> nat \<Rightarrow> state \<Rightarrow> state" where
  "setTimeout cb ms st = st\<lparr>timers := timers st @ [(cb, ms)]\<rparr>"

definition fetch :: "request \<Rightarrow> state \<Rightarrow> state" where
  "fetch r st = st\<lparr>inflight := inflight st @ [r]\<rparr>"

definition answered :: "request \<Rightarrow> state \<Rightarrow> state" where
  "answered r st = st\<lparr>inflight := remove1 r (inflight st)\<rparr>"

text \<open>
  \<^verbatim>\<open>disableForm(disabled)\<close> disables or enables the button, the input and the select
  together and swaps the button's text and loader; one flag stands for all of them.
\<close>

definition disableForm :: "bool \<Rightarrow> state \<Rightarrow> state" where
  "disableForm disabled st = st\<lparr>form_disabled := disabled\<rparr>"

definition showProgress :: "state \<Rightarrow> state" where
  "showProgress st = disableForm True (st\<lparr>progressSection_display := ''block''\<rparr>)"

definition hideProgress :: "state \<Rightarrow> state" where
  "hideProgress st = disableForm False (st\<lparr>progressSection_display := ''none''\<rparr>)"

definition hideProgressAfterDelay :: "state \<Rightarrow> state" where
  "hideProgressAfterDelay st = setTimeout CbHideProgress 3000 st"

text \<open>
  \<^verbatim>\<open>
  updateProgress(percentage, message) {
      this.progressFill.style.width = `${percentage}%`;
      this.progressText.textContent = message;
  }
  \<close>
\<close>

definition updateProgress :: "jsval \<Rightarrow> text_js \<Rightarrow> state \<Rightarrow> state" where
  "updateProgress percentage message st =
     st\<lparr>progressFill_width := [Sub percentage, Lit ''%''], progressText := message\<rparr>"

section \<open>Rendering a result\<close>

record pdf =
  title :: jsval
  url :: jsval

text \<open>
  \<^verbatim>\<open>displayFoundPdfs(pdfs)\<close> lists \<^verbatim>\<open>${pdf.title || pdf.url}\<close> for each entry; the list of
  these values stands for the markup.
\<close>

definition displayFoundPdfs :: "pdf list \<Rightarrow> state \<Rightarrow> state" where
  "displayFoundPdfs pdfs st = st\<lparr>foundPdfs := map (\<lambda>p. js_or (title p) (url p)) pdfs\<rparr>"

text \<open>
  \<^verbatim>\<open>
  displayTables(tables) {
      this.tablesContainer.innerHTML = '';
      if (!tables.length) {
          this.tablesContainer.innerHTML = `<div class="table-card"> ...
              <p>No tables were found in the processed PDF(s).</p> ...`;
          return;
      }
      tables.forEach((table, index) => {
          const tableCard = this.createTableCard(table, index);
          this.tablesContainer.appendChild(tableCard);
      });
  }
  \<close>
\<close>

definition displayTables :: "table list \<Rightarrow> state \<Rightarrow> state" where
  "displayTables ts st =
     (if ts = [] then st\<lparr>tablesContainer := NoTablesCard\<rparr>
      else st\<lparr>tablesContainer :=
                 Cards (map (\<lambda>(index, t). createTableCard t index) (enumerate 0 ts))\<rparr>)"

text \<open>
  The result object handed to \<^verbatim>\<open>displayResults\<close>: \<^verbatim>\<open>{table_count, tables, processing_time}\<close>.
  \<^verbatim>\<open>
  displayResults(results) {
      this.hideProgress();
      this.welcomeFeatures.style.display = 'none';
      this.resultsSection.style.display = 'block';
      const stats = `${results.table_count || results.tables?.length || 0} tables extracted`;
      this.resultsStats.textContent = stats;
      if (results.processing_time) {
          this.researchSummary.innerHTML = `<h3>Processing Summary</h3>
              <p>Successfully processed PDF(s) in ${results.processing_time.toFixed(2)} seconds.</p>
              <p>Extracted ${results.table_count || 0} tables with automated analysis.</p>`;
      }
      this.displayTables(results.tables || []);
  }
  \<close>
  The research path passes \<^verbatim>\<open>status.results\<close>, which may be \<open>undefined\<close>: then the first
  three statements run and \<^verbatim>\<open>results.table_count\<close> throws.
\<close>

record result_payload =
  table_count :: jsval
  tables :: "table list option"
  processing_time :: "real option"

datatype completion = Normal state | Throw error state

definition tables_length :: "table list option \<Rightarrow> jsval" where
  "tables_length ts = (case ts of None \<Rightarrow> JUndefined | Some xs \<Rightarrow> JNum (real (length xs)))"

definition tableCount :: "result_payload \<Rightarrow> jsval" where
  "tableCount results =
     js_or (js_or (table_count results) (tables_length (tables results))) (JNum 0)"

definition displayResults :: "result_payload option \<Rightarrow> state \<Rightarrow> completion" where
  "displayResults res st =
     (let st1 = hideProgress st;
          st2 = st1\<lparr>welcomeFeatures_display := ''none''\<rparr>;
          st3 = st2\<lparr>resultsSection_display := ''block''\<rparr>
      in case res of
           None \<Rightarrow> Throw TypeError st3
         | Some results \<Rightarrow>
             (let st4 = st3\<lparr>resultsStats := [Sub (tableCount results), Lit '' tables extracted'']\<rparr>;
                  st5 = (case processing_time results of
                           None \<Rightarrow> st4
                         | Some t \<Rightarrow>
                             if truthy (JNum t)
                             then st4\<lparr>researchSummary :=
                                    [Lit ''<h3>Processing Summary</h3><p>Successfully processed PDF(s) in '',
                                     Fixed2 t,
                                     Lit '' seconds.</p><p>Extracted '',
                                     Sub (js_or (table_count results) (JNum 0)),
                                     Lit '' tables with automated analysis.</p>'']\<rparr>
                             else st4)
              in Normal (displayTables (case tables results of None \<Rightarrow> [] | Some ts \<Rightarrow> ts) st5)))"

section \<open>Polling\<close>

text \<open>
  What comes back for a request: \<open>FetchFails m\<close> when \<^verbatim>\<open>fetch\<close> rejects (no response),
  \<open>BadBody code m\<close> for a response with that status code whose \<^verbatim>\<open>response.json()\<close>
  rejects, and \<open>Body code payload\<close> for a response whose body parses to an object.
  \<^verbatim>\<open>response.ok\<close> is true for the codes 200 to 299.
\<close>

datatype 'a reply = FetchFails string | BadBody nat string | Body nat 'a

definition ok :: "nat \<Rightarrow> bool" where
  "ok code = (200 \<le> code \<and> code \<le> 299)"

text \<open>
  The body of \<^verbatim>\<open>GET /research/status/{job_id}\<close>; a property the body does not have reads
  as \<open>JUndefined\<close> (\<open>None\<close> for the two containers).
\<close>

record research_status =
  status :: jsval
  progress :: jsval
  message :: jsval
  found_pdfs :: "pdf list option"
  results :: "result_payload option"
  error :: jsval

text \<open>
  An \<^verbatim>\<open>async\<close> method runs up to its \<^verbatim>\<open>await fetch(...)\<close>, which sends the request
  (\<open>_begin\<close>), and continues when the runtime delivers the reply (\<open>_resume\<close>).
  \<^verbatim>\<open>
  async trackResearchProgress() {
      if (!this.currentJobId) return;
      try {
          const response = await fetch(`${this.apiBase}/research/status/${this.currentJobId}`);
          const status = await response.json();
          this.updateProgress(status.progress, status.message);
          if (status.found_pdfs && status.found_pdfs.length > 0) {
              this.displayFoundPdfs(status.found_pdfs);
          }
          if (status.status === 'completed') {
              this.displayResults(status.results);
          } else if (status.status === 'failed') {
              this.updateProgress(0, `Research failed: ${status.error}`);
              this.hideProgressAfterDelay();
          } else {
              setTimeout(() => this.trackResearchProgress(), 2000);
          }
      } catch (error) {
          console.error('Progress tracking failed:', error);
          this.updateProgress(0, `Tracking error: ${error.message}`);
          this.hideProgressAfterDelay();
      }
  }
  \<close>
\<close>

definition tracking_catch :: "error \<Rightarrow> state \<Rightarrow> state" where
  "tracking_catch e st =
     hideProgressAfterDelay (updateProgress (JNum 0) [Lit ''Tracking error: '', ErrMsg e] st)"

definition trackResearchProgress_begin :: "state \<Rightarrow> state" where
  "trackResearchProgress_begin st =
     (if \<not> truthy (currentJobId st) then st
      else fetch (ResearchStatus (currentJobId st)) st)"

definition trackResearchProgress_resume ::
    "request \<Rightarrow> research_status reply \<Rightarrow> state \<Rightarrow> state" where
  "trackResearchProgress_resume r rep st0 =
     (let st = answered r st0
      in case rep of
           FetchFails m \<Rightarrow> tracking_catch (FetchRejected m) st
         | BadBody code m \<Rightarrow> tracking_catch (JsonRejected m) st
         | Body code s \<Rightarrow>
             (let st1 = updateProgress (progress s) [Sub (message s)] st;
                  st2 = (case found_pdfs s of
                           Some (p # ps) \<Rightarrow> displayFoundPdfs (p # ps) st1
                         | _ \<Rightarrow> st1)
              in if status s = JStr ''completed'' then
                   (case displayResults (results s) st2 of
                      Normal st3 \<Rightarrow> st3
                    | Throw e st3 \<Rightarrow> tracking_catch e st3)
                 else if status s = JStr ''failed'' then
                   hideProgressAfterDelay
                     (updateProgress (JNum 0) [Lit ''Research failed: '', Sub (error s)] st2)
                 else setTimeout CbTrackResearch 2000 st2))"

definition trackResearchProgress :: "research_status reply \<Rightarrow> state \<Rightarrow> state" where
  "trackResearchProgress rep st =
     (if \<not> truthy (currentJobId st) then st
      else trackResearchProgress_resume (ResearchStatus (currentJobId st)) rep
             (trackResearchProgress_begin st))"

text \<open>
  The body of \<^verbatim>\<open>GET /pdf/status/{job_id}\<close>.
  \<^verbatim>\<open>
  async trackPdfProcessing() {
      if (!this.currentJobId) return;
      try {
          const response = await fetch(`${this.apiBase}/pdf/status/${this.currentJobId}`);
          const status = await response.json();
          this.updateProgress(status.progress, status.message);
          if (status.status === 'completed') {
              this.displayResults({
                  tables: status.tables,
                  processing_time: status.processing_time,
                  table_count: status.table_count
              });
          } else if (status.status === 'failed') {
              this.updateProgress(0, `Processing failed: ${status.error}`);
              this.hideProgressAfterDelay();
          } else {
              setTimeout(() => this.trackPdfProcessing(), 1000);
          }
      } catch (error) {
          console.error('Processing tracking failed:', error);
          this.updateProgress(0, `Tracking error: ${error.message}`);
          this.hideProgressAfterDelay();
      }
  }
  \<close>
\<close>

record pdf_status =
  pdf_status :: jsval
  pdf_progress :: jsval
  pdf_message :: jsval
  pdf_tables :: "table list option"
  pdf_processing_time :: "real option"
  pdf_table_count :: jsval
  pdf_error :: jsval

definition trackPdfProcessing_begin :: "state \<Rightarrow> state" where
  "trackPdfProcessing_begin st =
     (if \<not> truthy (currentJobId st) then st
      else fetch (PdfStatus (currentJobId st)) st)"

definition trackPdfProcessing_resume ::
    "request \<Rightarrow> pdf_status reply \<Rightarrow> state \<Rightarrow> state" where
  "trackPdfProcessing_resume r rep st0 =
     (let st = answered r st0
      in case rep of
           FetchFails m \<Rightarrow> tracking_catch (FetchRejected m) st
         | BadBody code m \<Rightarrow> tracking_catch (JsonRejected m) st
         | Body code s \<Rightarrow>
             (let st1 = updateProgress (pdf_progress s) [Sub (pdf_message s)] st
              in if pdf_status s = JStr ''completed'' then
                   (case displayResults
                           (Some \<lparr> table_count = pdf_table_count s,
                                   tables = pdf_tables s,
                                   processing_time = pdf_processing_time s \<rparr>) st1 of
                      Normal st2 \<Rightarrow> st2
                    | Throw e st2 \<Rightarrow> tracking_catch e st2)
                 else if pdf_status s = JStr ''failed'' then
                   hideProgressAfterDelay
                     (updateProgress (JNum 0) [Lit ''Processing failed: '', Sub (pdf_error s)] st1)
                 else setTimeout CbTrackPdf 1000 st1))"

definition trackPdfProcessing :: "pdf_status reply \<Rightarrow> state \<Rightarrow> state" where
  "trackPdfProcessing rep st =
     (if \<not> truthy (currentJobId st) then st
      else trackPdfProcessing_resume (PdfStatus (currentJobId st)) rep
             (trackPdfProcessing_begin st))"

section \<open>Submitting a job\<close>

text \<open>
  \<^verbatim>\<open>topic.trim()\<close> removes white space at both ends; the topic is taken as ASCII text,
  whose white space is the space and the characters 9 to 13.
\<close>

definition is_space :: "char \<Rightarrow> bool" where
  "is_space c = (let n = (of_char c :: nat) in n = 32 \<or> (9 \<le> n \<and> n \<le> 13))"

definition trim :: "string \<Rightarrow> string" where
  "trim s = rev (dropWhile is_space (rev (dropWhile is_space s)))"

text \<open>The body of the two submission responses: \<^verbatim>\<open>{job_id}\<close>.\<close>

record submit_result =
  job_id :: jsval

text \<open>
  \<^verbatim>\<open>
  async startAutomatedResearch() {
      const topic = document.getElementById('research-topic').value;
      const maxPdfs = parseInt(document.getElementById('pdf-count').value);
      if (!topic.trim()) {
          alert('Please enter a research topic');
          return;
      }
      try {
          this.showProgress();
          this.updateProgress(5, 'Starting research...');
          const response = await fetch(`${this.apiBase}/research/start`, { method: 'POST', ...
              body: JSON.stringify({ topic: topic, max_pdfs: maxPdfs }) });
          if (!response.ok) {
              throw new Error(`HTTP error! status: ${response.status}`);
          }
          const result = await response.json();
          this.currentJobId = result.job_id;
          this.trackResearchProgress();
      } catch (error) {
          console.error('Research failed:', error);
          this.updateProgress(0, `Error: ${error.message}`);
          this.hideProgressAfterDelay();
      }
  }
  \<close>
  The topic and the parsed count are read from the page; they are arguments here.
\<close>

definition research_catch :: "error \<Rightarrow> state \<Rightarrow> state" where
  "research_catch e st =
     hideProgressAfterDelay (updateProgress (JNum 0) [Lit ''Error: '', ErrMsg e] st)"

definition startAutomatedResearch_begin :: "string \<Rightarrow> jsval \<Rightarrow> state \<Rightarrow> state" where
  "startAutomatedResearch_begin topic maxPdfs st =
     (if \<not> truthy (JStr (trim topic))
      then st\<lparr>alerts := alerts st @ [''Please enter a research topic'']\<rparr>
      else fetch (ResearchStart topic maxPdfs)
             (updateProgress (JNum 5) [Lit ''Starting research...''] (showProgress st)))"

definition startAutomatedResearch_resume ::
    "request \<Rightarrow> submit_result reply \<Rightarrow> state \<Rightarrow> state" where
  "startAutomatedResearch_resume r rep st0 =
     (let st = answered r st0
      in case rep of
           FetchFails m \<Rightarrow> research_catch (FetchRejected m) st
         | BadBody code m \<Rightarrow>
             if \<not> ok code then research_catch (HttpError code) st
             else research_catch (JsonRejected m) st
         | Body code result \<Rightarrow>
             if \<not> ok code then research_catch (HttpError code) st
             else trackResearchProgress_begin (st\<lparr>currentJobId := job_id result\<rparr>))"

definition startAutomatedResearch ::
    "string \<Rightarrow> jsval \<Rightarrow> submit_result reply \<Rightarrow> state \<Rightarrow> state" where
  "startAutomatedResearch topic maxPdfs rep st =
     (if \<not> truthy (JStr (trim topic)) then startAutomatedResearch_begin topic maxPdfs st
      else startAutomatedResearch_resume (ResearchStart topic maxPdfs) rep
             (startAutomatedResearch_begin topic maxPdfs st))"

text \<open>
  \<^verbatim>\<open>
  async processManualPdf() {
      const file = this.manualPdfInput.files[0];
      if (!file) return;
      const formData = new FormData();
      formData.append('pdf_file', file);
      try {
          this.showProgress();
          this.updateProgress(10, 'Uploading PDF...');
          const response = await fetch(`${this.apiBase}/pdf/upload`, { method: 'POST', body: formData });
          if (!response.ok) {
              throw new Error(`Upload failed: ${response.status}`);
          }
          const result = await response.json();
          this.currentJobId = result.job_id;
          this.updateProgress(30, 'Processing PDF...');
          this.trackPdfProcessing();
      } catch (error) {
          console.error('Manual upload failed:', error);
          this.updateProgress(0, `Upload error: ${error.message}`);
          this.hideProgressAfterDelay();
      }
  }
  \<close>
  The chosen file, if any, is an argument (its name stands for it).
\<close>

definition upload_catch :: "error \<Rightarrow> state \<Rightarrow> state" where
  "upload_catch e st =
     hideProgressAfterDelay (updateProgress (JNum 0) [Lit ''Upload error: '', ErrMsg e] st)"

definition processManualPdf_begin :: "string option \<Rightarrow> state \<Rightarrow> state" where
  "processManualPdf_begin file st =
     (case file of
        None \<Rightarrow> st
      | Some f \<Rightarrow>
          fetch (PdfUpload f)
            (updateProgress (JNum 10) [Lit ''Uploading PDF...''] (showProgress st)))"

definition processManualPdf_resume ::
    "request \<Rightarrow> submit_result reply \<Rightarrow> state \<Rightarrow> state" where
  "processManualPdf_resume r rep st0 =
     (let st = answered r st0
      in case rep of
           FetchFails m \<Rightarrow> upload_catch (FetchRejected m) st
         | BadBody code m \<Rightarrow>
             if \<not> ok code then upload_catch (UploadFailed code) st
             else upload_catch (JsonRejected m) st
         | Body code result \<Rightarrow>
             if \<not> ok code then upload_catch (UploadFailed code) st
             else trackPdfProcessing_begin
                    (updateProgress (JNum 30) [Lit ''Processing PDF...'']
                       (st\<lparr>currentJobId := job_id result\<rparr>)))"

definition processManualPdf :: "string option \<Rightarrow> submit_result reply \<Rightarrow> state \<Rightarrow> state" where
  "processManualPdf file rep st =
     (case file of
        None \<Rightarrow> processManualPdf_begin file st
      | Some f \<Rightarrow> processManualPdf_resume (PdfUpload f) rep (processManualPdf_begin file st))"

section \<open>The polling loop as a transition system\<close>

text \<open>
  Between two runs of the client's code the runtime either fires a pending timer, which
  runs its callback, or delivers the reply to an outstanding status request, which
  resumes the method that awaits it. Timers may fire in any order, so the delays play no
  part.
\<close>

fun run_callback :: "callback \<Rightarrow> state \<Rightarrow> state" where
  "run_callback CbTrackResearch st = trackResearchProgress_begin st"
| "run_callback CbTrackPdf st = trackPdfProcessing_begin st"
| "run_callback CbHideProgress st = hideProgress st"







section \<open>Example inputs\<close>

text \<open>
  The table of the specification's example: \<^verbatim>\<open>row_count = 120\<close>, 120 data rows, no
  \<^verbatim>\<open>columns\<close> and no \<^verbatim>\<open>preview_only\<close>.
\<close>

definition row120 :: row where
  "row120 = [(''year'', JNum 2020), (''value'', JStr ''a'')]"

definition table120 :: table where
  "table120 = \<lparr> name = JStr ''Yields'', row_count = JNum 120, col_count = JNum 2,
                 category = JUndefined, quality_score = Some 0.9, columns = None,
                 data = Some (replicate 120 row120), preview_only = JUndefined \<rparr>"

text \<open>
  A one-row table whose only cell is the string \<^verbatim>\<open>"null"\<close>, a row of falsy cells, and
  the table of the rows \<^verbatim>\<open>{"constructor": 0}\<close> and \<^verbatim>\<open>{}\<close>.
\<close>

definition table_null :: table where
  "table_null = \<lparr> name = JUndefined, row_count = JNum 1, col_count = JNum 1,
                   category = JUndefined, quality_score = None, columns = None,
                   data = Some [[(''a'', JStr ''null'')]], preview_only = JUndefined \<rparr>"


definition row_falsy :: row where
  "row_falsy = [(''n'', JNum 0), (''b'', JBool False), (''s'', JStr ''''), (''z'', JNull)]"

definition table_falsy :: table where
  "table_falsy = \<lparr> name = JUndefined, row_count = JNum 1, col_count = JNum 5,
                    category = JUndefined, quality_score = None,
                    columns = Some [''n'', ''b'', ''s'', ''z'', ''missing''],
                    data = Some [row_falsy], preview_only = JUndefined \<rparr>"

text \<open>
  A page on which the progress panel is shown and \<open>job-1\<close> is the current job, and the
  same page once the first status request for that job is out.
\<close>

definition polling_state :: state where
  "polling_state = (showProgress init)\<lparr>currentJobId := JStr ''job-1''\<rparr>"

definition active_state :: state where
  "active_state = trackResearchProgress_begin polling_state"

text \<open>
  The body of an error response such as \<^verbatim>\<open>{"detail": "Job not found"}\<close>: it has none of
  the properties the client reads.
\<close>

definition error_body :: research_status where
  "error_body = \<lparr> status = JUndefined, progress = JUndefined, message = JUndefined,
                   found_pdfs = None, results = None, error = JUndefined \<rparr>"

definition pdf_error_body :: pdf_status where
  "pdf_error_body = \<lparr> pdf_status = JUndefined, pdf_progress = JUndefined,
                       pdf_message = JUndefined, pdf_tables = None,
                       pdf_processing_time = None, pdf_table_count = JUndefined,
                       pdf_error = JUndefined \<rparr>"

text \<open>Status bodies: completed at progress 40, and running at progress 150.\<close>

definition completed_body :: research_status where
  "completed_body = \<lparr> status = JStr ''completed'', progress = JNum 40,
                       message = JStr ''Done'', found_pdfs = None,
                       results = Some \<lparr> table_count = JNum 1, tables = Some [table_null],
                                       processing_time = None \<rparr>,
                       error = JUndefined \<rparr>"

definition running_body :: research_status where
  "running_body = \<lparr> status = JStr ''in_progress'', progress = JNum 150,
                     message = JStr ''Working'', found_pdfs = None, results = None,
                     error = JUndefined \<rparr>"


text \<open>A result whose explicit count is 0 although it lists one table.\<close>

definition results_zero :: result_payload where
  "results_zero = \<lparr> table_count = JNum 0, tables = Some [table_null],
                     processing_time = None \<rparr>"

text \<open>
  Two uploads, one after the other, from the initial page: the first is accepted as
  \<open>job-4\<close> and the second as \<open>job-5\<close>; then the first loop's status request is
  answered with a running body, and the timer it sets fires.
\<close>

definition pdf_running_body :: pdf_status where
  "pdf_running_body = \<lparr> pdf_status = JStr ''processing'', pdf_progress = JNum 50,
                         pdf_message = JStr ''Extracting'', pdf_tables = None,
                         pdf_processing_time = None, pdf_table_count = JUndefined,
                         pdf_error = JUndefined \<rparr>"

definition first_upload :: state where
  "first_upload =
     processManualPdf (Some ''a.pdf'') (Body 200 \<lparr> job_id = JStr ''job-4'' \<rparr>) init"

definition second_upload :: state where
  "second_upload =
     processManualPdf (Some ''b.pdf'') (Body 200 \<lparr> job_id = JStr ''job-5'' \<rparr>) first_upload"

definition first_loop_polled :: state where
  "first_loop_polled =
     trackPdfProcessing_resume (PdfStatus (JStr ''job-4'')) (Body 200 pdf_running_body)
       second_upload"

definition two_loops :: state where
  "two_loops =
     run_callback CbTrackPdf
       (first_loop_polled\<lparr>timers := remove1 (CbTrackPdf, 1000) (timers first_loop_polled)\<rparr>)"

section \<open>Quality tiers\<close>

text \<open>
  C9. The score 0 is a present value below 0.6, yet \<^verbatim>\<open>getQualityColor\<close> returns the
  colour of an absent score, \<open>#666\<close>, and not the low colour: \<^verbatim>\<open>!score\<close> holds for 0.
\<close>

theorem getQualityColor_zero:
  "\<not> truthy (JNum 0) \<and> getQualityColor (Some 0) = ''#666''
   \<and> getQualityColor (Some 0) = getQualityColor None"
  by (simp add: getQualityColor_def)

text \<open>
  C1, as stated, fails at the score 0: it is below 0.6 and not absent, and the colour is
  the unknown one, not the low one.
\<close>

theorem getQualityColor_low_counterexample:
  "(0::real) < 0.6 \<and> Some (0::real) \<noteq> None
   \<and> getQualityColor (Some 0) \<noteq> ''#dc3545'' \<and> getQualityColor (Some 0) = ''#666''"
  by (simp add: getQualityColor_def)

text \<open>
  C1, amended. The colour is the high one exactly for a score of at least 0.8, the medium
  one exactly for a score from 0.6 up to but excluding 0.8, the low one exactly for a
  score below 0.6 other than 0, and the unknown one exactly for an absent score or the
  score 0. The five values of the specification give high, medium, medium, low, unknown.
\<close>

theorem getQualityColor_tiers:
  "((getQualityColor score = ''#28a745'') = (\<exists>s. score = Some s \<and> 0.8 \<le> s))
   \<and> ((getQualityColor score = ''#ffc107'') = (\<exists>s. score = Some s \<and> 0.6 \<le> s \<and> s < 0.8))
   \<and> ((getQualityColor score = ''#dc3545'') = (\<exists>s. score = Some s \<and> s < 0.6 \<and> s \<noteq> 0))
   \<and> ((getQualityColor score = ''#666'') = (score = None \<or> score = Some 0))
   \<and> getQualityColor (Some 0.8) = ''#28a745''
   \<and> getQualityColor (Some 0.79999) = ''#ffc107''
   \<and> getQualityColor (Some 0.6) = ''#ffc107''
   \<and> getQualityColor (Some 0.59999) = ''#dc3545''
   \<and> getQualityColor None = ''#666''"
  by (cases score) (simp_all add: getQualityColor_def)

section \<open>Rendering a table\<close>

lemma replicate_120: "replicate 120 x = x # replicate 119 x"
proof -
  have "(120::nat) = Suc 119" by simp
  then show ?thesis by (simp only: replicate_Suc)
qed


text \<open>
  C3, as stated, fails on the specification's own example: the reported row count is
  120, above 50, and the card carries no preview note.
\<close>

theorem preview_note_counterexample:
  "row_count table120 = JNum 120 \<and> (50::real) < 120
   \<and> data table120 = Some (replicate 120 row120)
   \<and> card_note (createTableCard table120 0) = ''''"
  by (simp add: table120_def createTableCard_def)

text \<open>
  C3, amended. A table with \<open>n\<close> data rows is rendered with \<open>min n 50\<close> body rows; the
  preview note is on the card exactly when \<^verbatim>\<open>preview_only\<close> is truthy, whatever the row
  count; without explicit columns the header row is the keys of row 0, in order.
\<close>

theorem createTableCard_rows_note_header:
  "length (bodyRows (card_content (createTableCard t i))) =
     min (case data t of None \<Rightarrow> 0 | Some rs \<Rightarrow> length rs) 50
   \<and> ((card_note (createTableCard t i) \<noteq> '''') = truthy (preview_only t))
   \<and> (columns t = None \<longrightarrow> (\<forall>r0 rs. data t = Some (r0 # rs) \<longrightarrow>
         headerRow (card_content (createTableCard t i)) = Object_keys r0))"
  by (simp add: createTableCard_def createTableHTML_def Let_def
        split: option.splits list.splits)

theorem createTableCard_rows_note_header_witness:
  "columns table120 = None \<and> data table120 = Some (row120 # replicate 119 row120)
   \<and> length (bodyRows (card_content (createTableCard table120 0))) = 50
   \<and> card_note (createTableCard table120 0) = ''''
   \<and> headerRow (card_content (createTableCard table120 0)) = [''year'', ''value'']"
proof -
  have c: "columns table120 = None"
    by (simp add: table120_def)
  have d: "data table120 = Some (row120 # replicate 119 row120)"
    by (simp add: table120_def replicate_120)
  have p: "\<not> truthy (preview_only table120)"
    by (simp add: table120_def)
  have k: "Object_keys row120 = [''year'', ''value'']"
    by (simp add: Object_keys_def row120_def)
  show ?thesis
    using createTableCard_rows_note_header [of table120 0] c d p k
    by simp
qed




section \<open>Polling and submission\<close>

lemmas client_defs =
  trackResearchProgress_def trackResearchProgress_begin_def trackResearchProgress_resume_def
  trackPdfProcessing_def trackPdfProcessing_begin_def trackPdfProcessing_resume_def
  startAutomatedResearch_def startAutomatedResearch_begin_def startAutomatedResearch_resume_def
  processManualPdf_def processManualPdf_begin_def processManualPdf_resume_def
  research_catch_def upload_catch_def
  fetch_def answered_def updateProgress_def displayFoundPdfs_def setTimeout_def
  hideProgressAfterDelay_def tracking_catch_def displayResults_def hideProgress_def
  disableForm_def displayTables_def showProgress_def

text \<open>
  C2. Evaluating the poll handlers on a 404 response whose body is a JSON object: neither
  handler looks at \<^verbatim>\<open>response.ok\<close>; the body has no \<open>status\<close>, so the last branch runs,
  the next poll is scheduled, and the progress panel stays up with no failure shown.
\<close>

theorem poll_ignores_http_status:
  "\<not> ok 404
   \<and> timers (trackResearchProgress (Body 404 error_body) polling_state)
       = [(CbTrackResearch, 2000)]
   \<and> timers (trackPdfProcessing (Body 404 pdf_error_body) polling_state)
       = [(CbTrackPdf, 1000)]
   \<and> progressSection_display (trackResearchProgress (Body 404 error_body) polling_state)
       = ''block''
   \<and> progressSection_display (trackPdfProcessing (Body 404 pdf_error_body) polling_state)
       = ''block''"
  by (simp add: client_defs polling_state_def error_body_def pdf_error_body_def init_def ok_def)

text \<open>
  C6. With a current job, a status body leads to the result renderer exactly through its
  \<open>status\<close>: when it is \<open>completed\<close> the results section is shown and, for a present
  result, its count and tables are rendered; otherwise nothing the renderer writes
  changes. The \<open>progress\<close> field plays no part. This holds for both job kinds.
\<close>

theorem completed_iff_status_completed:
  "truthy (currentJobId st) \<longrightarrow>
     (status s = JStr ''completed'' \<longrightarrow>
        resultsSection_display (trackResearchProgress (Body c s) st) = ''block''
        \<and> (\<forall>res. results s = Some res \<longrightarrow>
              resultsStats (trackResearchProgress (Body c s) st)
                = [Sub (tableCount res), Lit '' tables extracted'']
              \<and> tablesContainer (trackResearchProgress (Body c s) st)
                = tablesContainer
                    (displayTables (case tables res of None \<Rightarrow> [] | Some ts \<Rightarrow> ts) st)))
     \<and> (status s \<noteq> JStr ''completed'' \<longrightarrow>
        resultsSection_display (trackResearchProgress (Body c s) st)
          = resultsSection_display st
        \<and> resultsStats (trackResearchProgress (Body c s) st) = resultsStats st
        \<and> tablesContainer (trackResearchProgress (Body c s) st) = tablesContainer st)
     \<and> (resultsSection_display st \<noteq> ''block'' \<longrightarrow>
        (resultsSection_display (trackResearchProgress (Body c s) st) = ''block'')
          = (status s = JStr ''completed'')
        \<and> (resultsSection_display (trackPdfProcessing (Body c p) st) = ''block'')
          = (pdf_status p = JStr ''completed''))
     \<and> (pdf_status p = JStr ''completed'' \<longrightarrow>
        resultsSection_display (trackPdfProcessing (Body c p) st) = ''block''
        \<and> resultsStats (trackPdfProcessing (Body c p) st)
            = [Sub (tableCount \<lparr> table_count = pdf_table_count p, tables = pdf_tables p,
                                  processing_time = pdf_processing_time p \<rparr>),
               Lit '' tables extracted'']
        \<and> tablesContainer (trackPdfProcessing (Body c p) st)
            = tablesContainer
                (displayTables (case pdf_tables p of None \<Rightarrow> [] | Some ts \<Rightarrow> ts) st))
     \<and> (pdf_status p \<noteq> JStr ''completed'' \<longrightarrow>
        resultsSection_display (trackPdfProcessing (Body c p) st)
          = resultsSection_display st
        \<and> resultsStats (trackPdfProcessing (Body c p) st) = resultsStats st
        \<and> tablesContainer (trackPdfProcessing (Body c p) st) = tablesContainer st)"
  by (simp add: client_defs Let_def split: option.splits list.splits)

theorem completed_iff_status_completed_witness:
  "truthy (currentJobId polling_state)
   \<and> status completed_body = JStr ''completed'' \<and> progress completed_body = JNum 40
   \<and> resultsSection_display (trackResearchProgress (Body 200 completed_body) polling_state)
       = ''block''
   \<and> resultsStats (trackResearchProgress (Body 200 completed_body) polling_state)
       = [Sub (JNum 1), Lit '' tables extracted'']
   \<and> status running_body \<noteq> JStr ''completed''
   \<and> resultsSection_display (trackResearchProgress (Body 200 running_body) polling_state)
       = ''none''"
proof -
  have j: "truthy (currentJobId polling_state)"
    by (simp add: polling_state_def)
  have r: "results completed_body
      = Some \<lparr> table_count = JNum 1, tables = Some [table_null], processing_time = None \<rparr>"
    by (simp add: completed_body_def)
  have n: "resultsSection_display polling_state = ''none''"
    by (simp add: polling_state_def init_def showProgress_def disableForm_def)
  show ?thesis
    using completed_iff_status_completed [of polling_state completed_body 200 pdf_error_body]
      completed_iff_status_completed [of polling_state running_body 200 pdf_error_body]
      j r n
    by (simp add: completed_body_def running_body_def tableCount_def js_or_def)
qed

text \<open>
  C7, as stated, fails: a reported progress of 150 is assigned as the width of the bar
  as it is, \<^verbatim>\<open>150%\<close>.
\<close>

theorem progress_not_clamped_counterexample:
  "progress running_body = JNum 150 \<and> (100::real) < 150
   \<and> progressFill_width (trackResearchProgress (Body 200 running_body) polling_state)
       = [Sub (JNum 150), Lit ''%'']
   \<and> progressFill_width (updateProgress (JNum 150) [Sub (JStr ''Working'')] polling_state)
       = [Sub (JNum 150), Lit ''%'']"
  by (simp add: client_defs polling_state_def running_body_def init_def)

text \<open>
  C7, amended. \<^verbatim>\<open>updateProgress\<close> sets the width of the bar to the value it is given,
  unchanged; a status body that neither completes nor fails the job shows its progress
  value as reported, whatever it is, and the next poll is scheduled: the body is not
  rejected.
\<close>

theorem progress_used_unchanged:
  "progressFill_width (updateProgress percentage msg st) = [Sub percentage, Lit ''%'']
   \<and> (truthy (currentJobId st) \<longrightarrow>
        (status s \<noteq> JStr ''completed'' \<and> status s \<noteq> JStr ''failed'' \<longrightarrow>
           progressFill_width (trackResearchProgress (Body c s) st)
             = [Sub (progress s), Lit ''%'']
           \<and> timers (trackResearchProgress (Body c s) st)
             = timers st @ [(CbTrackResearch, 2000)])
        \<and> (pdf_status p \<noteq> JStr ''completed'' \<and> pdf_status p \<noteq> JStr ''failed'' \<longrightarrow>
           progressFill_width (trackPdfProcessing (Body c p) st)
             = [Sub (pdf_progress p), Lit ''%'']
           \<and> timers (trackPdfProcessing (Body c p) st)
             = timers st @ [(CbTrackPdf, 1000)]))"
  by (simp add: client_defs Let_def split: option.splits list.splits)

theorem progress_used_unchanged_witness:
  "truthy (currentJobId polling_state)
   \<and> status running_body \<noteq> JStr ''completed'' \<and> status running_body \<noteq> JStr ''failed''
   \<and> pdf_status pdf_error_body \<noteq> JStr ''completed''
   \<and> pdf_status pdf_error_body \<noteq> JStr ''failed''
   \<and> progressFill_width (trackResearchProgress (Body 200 running_body) polling_state)
       = [Sub (JNum 150), Lit ''%'']
   \<and> timers (trackResearchProgress (Body 200 running_body) polling_state)
       = [(CbTrackResearch, 2000)]
   \<and> progressFill_width (trackPdfProcessing (Body 200 pdf_error_body) polling_state)
       = [Sub JUndefined, Lit ''%'']"
proof -
  have j: "truthy (currentJobId polling_state)"
    by (simp add: polling_state_def)
  have t: "timers polling_state = []"
    by (simp add: polling_state_def init_def showProgress_def disableForm_def)
  show ?thesis
    using progress_used_unchanged
            [where st = polling_state and s = running_body and p = pdf_error_body and c = 200] j t
    by (simp add: running_body_def pdf_error_body_def)
qed

text \<open>
  C8, as stated, fails when the explicit count is present and is 0 while the list has a
  table: the count shown is the length of the list.
\<close>

theorem table_count_zero_counterexample:
  "table_count results_zero = JNum 0 \<and> tableCount results_zero = JNum 1
   \<and> (case displayResults (Some results_zero) polling_state of
         Normal st' \<Rightarrow> resultsStats st' = [Sub (JNum 1), Lit '' tables extracted'']
       | Throw e st' \<Rightarrow> False)"
  by (simp add: client_defs results_zero_def polling_state_def init_def tableCount_def tables_length_def js_or_def Let_def)

text \<open>
  C8, amended. \<^verbatim>\<open>displayResults\<close> shows the count
  \<^verbatim>\<open>table_count || tables?.length || 0\<close>: the explicit count when it is truthy;
  otherwise the length of the tables list when the list is present and not empty;
  otherwise 0.
\<close>

theorem table_count_shown:
  "(case displayResults (Some r) st of
      Normal st' \<Rightarrow> resultsStats st' = [Sub (tableCount r), Lit '' tables extracted'']
    | Throw e st' \<Rightarrow> False)
   \<and> (truthy (table_count r) \<longrightarrow> tableCount r = table_count r)
   \<and> (\<not> truthy (table_count r) \<longrightarrow>
        (\<forall>ts. tables r = Some ts \<longrightarrow> ts \<noteq> [] \<longrightarrow> tableCount r = JNum (real (length ts)))
        \<and> (tables r = None \<or> tables r = Some [] \<longrightarrow> tableCount r = JNum 0))"
  by (auto simp: client_defs tableCount_def tables_length_def js_or_def Let_def
        split: option.splits)

theorem table_count_shown_witness:
  "tableCount \<lparr> table_count = JNum 7, tables = Some [table_null], processing_time = None \<rparr>
     = JNum 7
   \<and> tableCount \<lparr> table_count = JUndefined, tables = Some [table_null, table_falsy],
                    processing_time = None \<rparr> = JNum 2
   \<and> tableCount \<lparr> table_count = JUndefined, tables = None, processing_time = None \<rparr>
     = JNum 0"
  using table_count_shown
          [of "\<lparr> table_count = JNum 7, tables = Some [table_null], processing_time = None \<rparr>"
              polling_state]
        table_count_shown
          [of "\<lparr> table_count = JUndefined, tables = Some [table_null, table_falsy],
                  processing_time = None \<rparr>" polling_state]
        table_count_shown
          [of "\<lparr> table_count = JUndefined, tables = None, processing_time = None \<rparr>"
              polling_state]
  by simp

text \<open>
  C4, as stated, fails: with \<open>job-1\<close> active and its status request outstanding, a new
  research submission is sent, nothing is reported, and the accepted reply makes
  \<open>job-2\<close> the current job.
\<close>

theorem start_while_active_counterexample:
  "currentJobId active_state = JStr ''job-1''
   \<and> inflight active_state = [ResearchStatus (JStr ''job-1'')]
   \<and> inflight (startAutomatedResearch_begin ''solar'' (JNum 5) active_state)
       = [ResearchStatus (JStr ''job-1''), ResearchStart ''solar'' (JNum 5)]
   \<and> alerts (startAutomatedResearch_begin ''solar'' (JNum 5) active_state) = []
   \<and> currentJobId
        (startAutomatedResearch ''solar'' (JNum 5) (Body 200 \<lparr> job_id = JStr ''job-2'' \<rparr>)
           active_state) = JStr ''job-2''"
  by (simp add: client_defs active_state_def polling_state_def init_def trim_def is_space_def ok_def)

text \<open>
  C4, amended. Neither submission looks at the current job: from any state, a research
  submission with a non-blank topic, and an upload with a file chosen, send their
  request, and a reply with a 2xx code makes the job id of the reply the current job.
\<close>

theorem start_is_not_guarded:
  "(trim topic \<noteq> [] \<longrightarrow>
      inflight (startAutomatedResearch_begin topic maxPdfs st)
        = inflight st @ [ResearchStart topic maxPdfs]
      \<and> alerts (startAutomatedResearch_begin topic maxPdfs st) = alerts st
      \<and> (ok c \<longrightarrow>
           currentJobId (startAutomatedResearch topic maxPdfs (Body c r) st) = job_id r))
   \<and> inflight (processManualPdf_begin (Some f) st) = inflight st @ [PdfUpload f]
   \<and> (ok c \<longrightarrow> currentJobId (processManualPdf (Some f) (Body c r) st) = job_id r)"
  by (simp add: client_defs Let_def)

theorem start_is_not_guarded_witness:
  "trim ''solar'' \<noteq> [] \<and> ok 200 \<and> truthy (currentJobId active_state)
   \<and> inflight (startAutomatedResearch_begin ''solar'' (JNum 5) active_state)
       = inflight active_state @ [ResearchStart ''solar'' (JNum 5)]
   \<and> currentJobId
        (startAutomatedResearch ''solar'' (JNum 5) (Body 200 \<lparr> job_id = JStr ''job-2'' \<rparr>)
           active_state) = JStr ''job-2''
   \<and> currentJobId
        (processManualPdf (Some ''paper.pdf'') (Body 200 \<lparr> job_id = JStr ''job-3'' \<rparr>)
           active_state) = JStr ''job-3''"
proof -
  have t: "trim ''solar'' \<noteq> []"
    by (simp add: trim_def is_space_def)
  have k: "ok 200"
    by (simp add: ok_def)
  have j: "truthy (currentJobId active_state)"
    by (simp add: client_defs active_state_def polling_state_def init_def)
  show ?thesis
    using start_is_not_guarded
            [of "''solar''" "JNum 5" active_state 200 "\<lparr> job_id = JStr ''job-2'' \<rparr>"
                "''paper.pdf''"]
          start_is_not_guarded
            [of "''solar''" "JNum 5" active_state 200 "\<lparr> job_id = JStr ''job-3'' \<rparr>"
                "''paper.pdf''"] t k j
    by simp
qed

section \<open>The polling loop\<close>












lemmas upload_defs =
  first_upload_def second_upload_def first_loop_polled_def two_loops_def pdf_running_body_def
  init_def ok_def

lemma inflight_first_upload: "inflight first_upload = [PdfStatus (JStr ''job-4'')]"
  by (simp add: upload_defs client_defs)








end
